theory Spec2Isabelle
  imports Complex_Main
begin

section \<open>Numbers and strings\<close>

text \<open>
  Python floats are modelled as exact rationals: every arithmetic operation of the source
  is the exact operation, and no float is infinite or NaN.  Strings are lists of
  8-bit characters; case conversion is the ASCII one.
\<close>

text \<open>
  Python's \<^verbatim>\<open>round(x, ndigits)\<close>: the nearest multiple of \<open>10 ^ (- ndigits)\<close>,
  a tie going to the even multiple.
\<close>

definition round_half_even :: "rat \<Rightarrow> int" where
  "round_half_even y =
     (let f = \<lfloor>y\<rfloor>;
          r = y - of_int f
      in if r < 1 / 2 then f else if 1 / 2 < r then f + 1
         else if even f then f else f + 1)"

definition py_round :: "rat \<Rightarrow> nat \<Rightarrow> rat" where
  "py_round x ndigits = of_int (round_half_even (x * 10 ^ ndigits)) / 10 ^ ndigits"

definition lower_char :: "char \<Rightarrow> char" where
  "lower_char c =
     (let n = (of_char c :: nat) in if 65 \<le> n \<and> n \<le> 90 then char_of (n + 32) else c)"

definition upper_char :: "char \<Rightarrow> char" where
  "upper_char c =
     (let n = (of_char c :: nat) in if 97 \<le> n \<and> n \<le> 122 then char_of (n - 32) else c)"

text \<open>\<^verbatim>\<open>s.lower()\<close> and \<^verbatim>\<open>s.upper()\<close>.\<close>

definition lower :: "string \<Rightarrow> string" where
  "lower s = map lower_char s"

definition upper :: "string \<Rightarrow> string" where
  "upper s = map upper_char s"

text \<open>\<^verbatim>\<open>s.replace(" ", "")\<close>: every space character is dropped, nothing else.\<close>

definition remove_spaces :: "string \<Rightarrow> string" where
  "remove_spaces s = filter (\<lambda>c. c \<noteq> CHR '' '') s"

text \<open>The exceptions the modelled code raises.\<close>

datatype exn =
    PostcodeNotFoundError string
  | PostcodeAPIError string
  | ClimateAPIError string
  | AttributeError
  | TypeError
  | ValueError string
  | ZeroDivisionError


section \<open>Solar yield calculator (calculators/solar.py)\<close>

record SolarClimateData =
  cd_latitude :: rat
  cd_longitude :: rat
  monthly_ghi_kwh_m2_day :: "rat list"
  annual_ghi_kwh_m2 :: rat
  source :: string

record Assumptions =
  optimal_tilt_degrees :: rat
  actual_tilt_degrees :: rat
  orientation :: string
  a_orientation_factor :: rat
  a_tilt_factor :: rat
  a_system_efficiency :: rat
  a_performance_ratio :: rat
  a_inverter_efficiency :: rat
  a_temperature_coefficient :: rat
  a_soiling_losses :: rat
  a_shading_factor :: rat
  climate_source :: string

record SolarOutput =
  annual_kwh :: rat
  monthly_kwh :: "rat list"
  capacity_factor :: rat
  kwh_per_kwp :: rat
  assumptions :: Assumptions

definition ORIENTATION_FACTORS :: "(string \<times> rat) list" where
  "ORIENTATION_FACTORS =
     [(''south'', 1.00),
      (''south-east'', 0.97),
      (''south-west'', 0.97),
      (''east'', 0.88),
      (''west'', 0.88),
      (''north-east'', 0.75),
      (''north-west'', 0.75),
      (''north'', 0.55)]"

text \<open>\<^verbatim>\<open>ORIENTATION_FACTORS.get(panel_orientation.lower(), 0.88)\<close>\<close>

definition orientation_factor_of :: "string \<Rightarrow> rat" where
  "orientation_factor_of panel_orientation =
     (case map_of ORIENTATION_FACTORS (lower panel_orientation) of
        None \<Rightarrow> 0.88
      | Some f \<Rightarrow> f)"

definition calculate_optimal_tilt :: "rat \<Rightarrow> rat" where
  "calculate_optimal_tilt latitude =
     (let optimal = max 0 (latitude - 10) in py_round optimal 1)"

definition calculate_tilt_factor :: "rat \<Rightarrow> rat \<Rightarrow> rat" where
  "calculate_tilt_factor tilt optimal_tilt =
     (let deviation = \<bar>tilt - optimal_tilt\<bar> in
      if deviation = 0 then 1.0
      else
        let penalty = 0.005 * deviation;
            factor = max 0.7 (1.0 - penalty)
        in py_round factor 3)"

definition days_in_month :: "rat list" where
  "days_in_month = [31, 28.25, 31, 30, 31, 30, 31, 31, 30, 31, 30, 31]"

text \<open>
  The loop over \<^verbatim>\<open>zip(climate_data.monthly_ghi_kwh_m2_day, days_in_month)\<close>, appending
  one rounded value per pair.
\<close>

definition monthly_loop :: "rat \<Rightarrow> rat \<Rightarrow> rat \<Rightarrow> rat list \<Rightarrow> rat list" where
  "monthly_loop capacity_kwp system_efficiency performance_ratio ghi =
     map (\<lambda>(ghi_per_day, days).
            py_round (capacity_kwp * ghi_per_day * days * system_efficiency * performance_ratio) 2)
         (zip ghi days_in_month)"

text \<open>
  The product of the eight efficiency factors, in the order of the source.
\<close>

definition system_efficiency_of :: "rat \<Rightarrow> rat \<Rightarrow> rat \<Rightarrow> rat \<Rightarrow> rat" where
  "system_efficiency_of orientation_factor tilt_factor inverter_efficiency shading_factor =
     (let temperature_coefficient = 0.96;
          soiling_losses = 0.98;
          cable_losses = 0.99;
          mismatch_losses = 0.99
      in orientation_factor * tilt_factor * inverter_efficiency * temperature_coefficient *
         soiling_losses * cable_losses * mismatch_losses * shading_factor)"

text \<open>
  \<^verbatim>\<open>calculate_solar_output\<close>.  The two divisions raise \<^verbatim>\<open>ZeroDivisionError\<close> on a zero
  divisor; nothing else in the function can raise on numbers and a string.
\<close>

definition calculate_solar_output ::
  "rat \<Rightarrow> SolarClimateData \<Rightarrow> rat \<Rightarrow> string \<Rightarrow> rat option \<Rightarrow> rat \<Rightarrow> rat \<Rightarrow> exn + SolarOutput"
where
  "calculate_solar_output capacity_kwp climate_data latitude panel_orientation
       panel_tilt_degrees shading_factor inverter_efficiency =
     (let optimal_tilt = calculate_optimal_tilt latitude;
          tilt = (case panel_tilt_degrees of None \<Rightarrow> optimal_tilt | Some t \<Rightarrow> t);
          orientation_factor = orientation_factor_of panel_orientation;
          tilt_factor = calculate_tilt_factor tilt optimal_tilt;
          system_efficiency =
            system_efficiency_of orientation_factor tilt_factor inverter_efficiency shading_factor;
          performance_ratio = 0.85;
          monthly = monthly_loop capacity_kwp system_efficiency performance_ratio
                      (monthly_ghi_kwh_m2_day climate_data);
          annual = sum_list monthly;
          theoretical_max_kwh = capacity_kwp * 8760
      in if theoretical_max_kwh = 0 then Inl ZeroDivisionError
         else if capacity_kwp = 0 then Inl ZeroDivisionError
         else Inr \<lparr>
           annual_kwh = py_round annual 2,
           monthly_kwh = monthly,
           capacity_factor = py_round (annual / theoretical_max_kwh) 4,
           kwh_per_kwp = py_round (annual / capacity_kwp) 1,
           assumptions = \<lparr>
             optimal_tilt_degrees = optimal_tilt,
             actual_tilt_degrees = tilt,
             orientation = panel_orientation,
             a_orientation_factor = py_round orientation_factor 3,
             a_tilt_factor = py_round tilt_factor 3,
             a_system_efficiency = py_round system_efficiency 3,
             a_performance_ratio = performance_ratio,
             a_inverter_efficiency = inverter_efficiency,
             a_temperature_coefficient = 0.96,
             a_soiling_losses = py_round (1 - 0.98) 3,
             a_shading_factor = shading_factor,
             climate_source = source climate_data
           \<rparr>
         \<rparr>)"

section \<open>Number formatting\<close>

text \<open>
  \<^verbatim>\<open>str(n)\<close> for a non-negative integer, and the format \<^verbatim>\<open>f"{x:.2f}"\<close>: a minus
  sign for a negative number, then the magnitude rounded to two decimals.
\<close>

definition digit_char :: "nat \<Rightarrow> char" where
  "digit_char d = char_of (48 + d)"

fun str_nat :: "nat \<Rightarrow> string" where
  "str_nat n = (if n < 10 then [digit_char n] else str_nat (n div 10) @ [digit_char (n mod 10)])"

definition format_2f :: "rat \<Rightarrow> string" where
  "format_2f x =
     (let q = nat (round_half_even (\<bar>x\<bar> * 100))
      in (if x < 0 then ''-'' else []) @ str_nat (q div 100) @ ''.'' @
         [digit_char ((q mod 100) div 10), digit_char (q mod 10)])"

section \<open>JSON values and HTTP results\<close>

text \<open>
  What \<^verbatim>\<open>response.json()\<close> returns: a parsed JSON value (an object is kept as its
  list of members, looked up from the front), or the \<^verbatim>\<open>ValueError\<close> of the decoder.
  What \<^verbatim>\<open>client.get\<close> returns: a response with its status code, or one of the two
  \<^verbatim>\<open>httpx\<close> exceptions the services catch.  Each service sends at most one request
  per call, so it takes as an argument the result that request has if it is sent.
\<close>

datatype json =
    JNull
  | JBool bool
  | JNum rat
  | JStr string
  | JArr "json list"
  | JObj "(string \<times> json) list"

datatype http_body = Json json | NotJson string

datatype http_result =
    TimeoutException
  | RequestError string
  | Response nat http_body

text \<open>Python truth value of a parsed JSON value (\<^verbatim>\<open>not x\<close> is its negation).\<close>

fun truthy :: "json \<Rightarrow> bool" where
  "truthy JNull = False"
| "truthy (JBool b) = b"
| "truthy (JNum x) = (x \<noteq> 0)"
| "truthy (JStr s) = (s \<noteq> [])"
| "truthy (JArr xs) = (xs \<noteq> [])"
| "truthy (JObj kvs) = (kvs \<noteq> [])"

text \<open>
  \<^verbatim>\<open>d.get(key, default)\<close>: a dict answers; any other parsed value has no \<^verbatim>\<open>get\<close>
  and raises \<^verbatim>\<open>AttributeError\<close>.
\<close>

fun dict_get :: "json \<Rightarrow> string \<Rightarrow> json \<Rightarrow> exn + json" where
  "dict_get (JObj kvs) key dflt = Inr (case map_of kvs key of None \<Rightarrow> dflt | Some v \<Rightarrow> v)"
| "dict_get _ key dflt = Inl AttributeError"

text \<open>The values Python arithmetic accepts as numbers: numbers and booleans.\<close>

fun as_number :: "json \<Rightarrow> rat option" where
  "as_number (JNum x) = Some x"
| "as_number (JBool b) = Some (if b then 1 else 0)"
| "as_number _ = None"

section \<open>Request validation (schemas/calculation.py)\<close>


datatype system_type = Solar | Wind

record SolarSpecs =
  sp_capacity_kwp :: rat
  sp_panel_orientation :: "string option"
  sp_panel_tilt_degrees :: "rat option"
  sp_shading_factor :: "rat option"
  sp_inverter_efficiency :: "rat option"

record WindSpecs =
  rated_power_kw :: rat
  hub_height_m :: rat
  turbine_model :: "string option"

datatype system_specs = SolarSpecsOf SolarSpecs | WindSpecsOf WindSpecs

record CalculationRequest =
  req_postcode :: string
  req_system_type :: system_type
  req_system_specs :: system_specs

section \<open>Service state\<close>

text \<open>
  The two module-level caches, and a trace that is not in the source: it records, in
  order, each call the endpoint makes to a service or to the calculator and each request
  a service sends out, so that "was never invoked" can be stated.
\<close>

record Location =
  loc_postcode :: json
  loc_latitude :: json
  loc_longitude :: json
  loc_region :: json

datatype event =
    Call_lookup_postcode string
  | Postcode_api_get string
  | Call_get_solar_climate_data json json
  | Climate_api_get string rat rat
  | Call_calculate_solar_output

record state =
  postcode_cache :: "string \<rightharpoonup> Location"
  climate_cache :: "string \<rightharpoonup> SolarClimateData"
  trace :: "event list"

definition emit :: "event \<Rightarrow> state \<Rightarrow> state" where
  "emit e s = s\<lparr>trace := trace s @ [e]\<rparr>"

section \<open>Location resolver (services/postcode.py)\<close>

definition postcodes_io_base_url :: string where
  "postcodes_io_base_url = ''https://api.postcodes.io''"

text \<open>The local \<^verbatim>\<open>normalized\<close> of \<^verbatim>\<open>lookup_postcode\<close>, the cache key and URL segment.\<close>

definition lookup_postcode_normalized :: "string \<Rightarrow> string" where
  "lookup_postcode_normalized postcode = upper (remove_spaces postcode)"

definition postcode_not_found :: "string \<Rightarrow> exn" where
  "postcode_not_found postcode =
     PostcodeNotFoundError (''Postcode '' @ [CHR 0x27] @ postcode @ [CHR 0x27] @ '' not found'')"

text \<open>The construction of \<^verbatim>\<open>Location\<close> from the \<^verbatim>\<open>result\<close> member of the answer.\<close>

definition location_of_result :: "string \<Rightarrow> json \<Rightarrow> exn + Location" where
  "location_of_result postcode result =
     (case result of
        JObj kvs \<Rightarrow>
          let get = (\<lambda>key dflt. case map_of kvs key of None \<Rightarrow> dflt | Some v \<Rightarrow> v);
              r = get ''region'' JNull;
              a = get ''admin_district'' JNull
          in Inr \<lparr>loc_postcode = get ''postcode'' (JStr postcode),
                  loc_latitude = get ''latitude'' JNull,
                  loc_longitude = get ''longitude'' JNull,
                  loc_region = (if truthy r then r else if truthy a then a else JStr ''Unknown'')\<rparr>
      | _ \<Rightarrow> Inl AttributeError)"

definition lookup_postcode ::
  "http_result \<Rightarrow> string \<Rightarrow> state \<Rightarrow> (exn + Location) \<times> state"
where
  "lookup_postcode response postcode s =
     (let normalized = lookup_postcode_normalized postcode in
      case postcode_cache s normalized of
        Some location \<Rightarrow> (Inr location, s)
      | None \<Rightarrow>
          let url = postcodes_io_base_url @ ''/postcodes/'' @ normalized;
              s1 = emit (Postcode_api_get url) s
          in case response of
               TimeoutException \<Rightarrow> (Inl (PostcodeAPIError ''Postcode lookup timed out''), s1)
             | RequestError e \<Rightarrow> (Inl (PostcodeAPIError (''Postcode lookup failed: '' @ e)), s1)
             | Response status_code body \<Rightarrow>
                 if status_code = 404 then (Inl (postcode_not_found postcode), s1)
                 else if status_code \<noteq> 200
                 then (Inl (PostcodeAPIError
                         (''Postcodes.io API returned status '' @ str_nat status_code)), s1)
                 else
                   (case body of
                      NotJson msg \<Rightarrow> (Inl (ValueError msg), s1)
                    | Json data \<Rightarrow>
                        (case dict_get data ''status'' JNull of
                           Inl e \<Rightarrow> (Inl e, s1)
                         | Inr st \<Rightarrow>
                             if st \<noteq> JNum 200 then (Inl (postcode_not_found postcode), s1)
                             else
                               (case dict_get data ''result'' (JObj []) of
                                  Inl e \<Rightarrow> (Inl e, s1)
                                | Inr result \<Rightarrow>
                                    (case location_of_result postcode result of
                                       Inl e \<Rightarrow> (Inl e, s1)
                                     | Inr location \<Rightarrow>
                                         (Inr location,
                                          s1\<lparr>postcode_cache :=
                                               (postcode_cache s1)(normalized \<mapsto> location)\<rparr>))))))"

section \<open>Climate data provider (services/climate.py)\<close>

definition nasa_power_base_url :: string where
  "nasa_power_base_url = ''https://power.larc.nasa.gov/api''"

definition month_order :: "string list" where
  "month_order = [''JAN'', ''FEB'', ''MAR'', ''APR'', ''MAY'', ''JUN'',
                  ''JUL'', ''AUG'', ''SEP'', ''OCT'', ''NOV'', ''DEC'']"

text \<open>
  The cache key \<^verbatim>\<open>f"{latitude:.2f},{longitude:.2f}"\<close>.  The format raises
  \<^verbatim>\<open>ValueError\<close> on a string and \<^verbatim>\<open>TypeError\<close> on any other value that is not a
  number; the latitude is formatted first.
\<close>

fun format_2f_json :: "json \<Rightarrow> exn + string" where
  "format_2f_json (JStr s) = Inl (ValueError ''Unknown format code'')"
| "format_2f_json v = (case as_number v of None \<Rightarrow> Inl TypeError | Some x \<Rightarrow> Inr (format_2f x))"

definition cache_key_of :: "json \<Rightarrow> json \<Rightarrow> exn + string" where
  "cache_key_of lat lon =
     (case format_2f_json lat of
        Inl e \<Rightarrow> Inl e
      | Inr a \<Rightarrow> (case format_2f_json lon of Inl e \<Rightarrow> Inl e | Inr b \<Rightarrow> Inr (a @ '','' @ b)))"

text \<open>
  \<^verbatim>\<open>data.get("properties", {}).get("parameter", {})\<close> followed by
  \<^verbatim>\<open>parameters.get("ALLSKY_SFC_SW_DWN", {})\<close>.
\<close>

definition extract_monthly_data :: "json \<Rightarrow> exn + json" where
  "extract_monthly_data data =
     (case dict_get data ''properties'' (JObj []) of
        Inl e \<Rightarrow> Inl e
      | Inr properties \<Rightarrow>
          (case dict_get properties ''parameter'' (JObj []) of
             Inl e \<Rightarrow> Inl e
           | Inr parameters \<Rightarrow> dict_get parameters ''ALLSKY_SFC_SW_DWN'' (JObj [])))"

text \<open>
  The list comprehension \<^verbatim>\<open>[monthly_data.get(month, 0.0) for month in month_order]\<close>
  and the sum \<^verbatim>\<open>sum(m * d for m, d in zip(monthly_ghi, days_in_month))\<close>.  The list is
  built from whatever values the mapping holds; the sum raises \<^verbatim>\<open>TypeError\<close> as soon
  as one of them is not a number.
\<close>

definition monthly_values :: "(string \<times> json) list \<Rightarrow> json list" where
  "monthly_values kvs =
     map (\<lambda>month. case map_of kvs month of None \<Rightarrow> JNum 0.0 | Some v \<Rightarrow> v) month_order"

definition annual_total :: "rat list \<Rightarrow> rat" where
  "annual_total monthly_ghi = sum_list (map (\<lambda>(m, d). m * d) (zip monthly_ghi days_in_month))"

definition climate_of_monthly_data ::
  "rat \<Rightarrow> rat \<Rightarrow> json \<Rightarrow> exn + SolarClimateData"
where
  "climate_of_monthly_data lat lon monthly_data =
     (if \<not> truthy monthly_data
      then Inl (ClimateAPIError ''No GHI data returned from NASA POWER'')
      else
        (case monthly_data of
           JObj kvs \<Rightarrow>
             (case those (map as_number (monthly_values kvs)) of
                None \<Rightarrow> Inl TypeError
              | Some monthly_ghi \<Rightarrow>
                  Inr \<lparr>cd_latitude = lat, cd_longitude = lon,
                       monthly_ghi_kwh_m2_day = monthly_ghi,
                       annual_ghi_kwh_m2 = annual_total monthly_ghi,
                       source = ''NASA_POWER''\<rparr>)
         | _ \<Rightarrow> Inl AttributeError))"

definition get_solar_climate_data ::
  "http_result \<Rightarrow> json \<Rightarrow> json \<Rightarrow> state \<Rightarrow> (exn + SolarClimateData) \<times> state"
where
  "get_solar_climate_data response lat_v lon_v s =
     (case cache_key_of lat_v lon_v of
        Inl e \<Rightarrow> (Inl e, s)
      | Inr cache_key \<Rightarrow>
          (case climate_cache s cache_key of
             Some climate_data \<Rightarrow> (Inr climate_data, s)
           | None \<Rightarrow>
               let lat = the (as_number lat_v);
                   lon = the (as_number lon_v);
                   url = nasa_power_base_url @ ''/temporal/climatology/point'';
                   s1 = emit (Climate_api_get url lat lon) s
               in case response of
                    TimeoutException \<Rightarrow>
                      (Inl (ClimateAPIError ''NASA POWER API request timed out''), s1)
                  | RequestError e \<Rightarrow>
                      (Inl (ClimateAPIError (''NASA POWER API request failed: '' @ e)), s1)
                  | Response status_code body \<Rightarrow>
                      if status_code \<noteq> 200
                      then (Inl (ClimateAPIError
                              (''NASA POWER API returned status '' @ str_nat status_code)), s1)
                      else
                        (case body of
                           NotJson msg \<Rightarrow>
                             (Inl (ClimateAPIError
                                (''Failed to parse NASA POWER response: '' @ msg)), s1)
                         | Json data \<Rightarrow>
                             (case extract_monthly_data data of
                                Inl e \<Rightarrow> (Inl e, s1)
                              | Inr monthly_data \<Rightarrow>
                                  (case climate_of_monthly_data lat lon monthly_data of
                                     Inl e \<Rightarrow> (Inl e, s1)
                                   | Inr climate_data \<Rightarrow>
                                       (Inr climate_data,
                                        s1\<lparr>climate_cache :=
                                             (climate_cache s1)(cache_key \<mapsto> climate_data)\<rparr>))))))"

section \<open>The endpoint (api/v1/calculate.py), steps 1 to 3\<close>

text \<open>
  An \<^verbatim>\<open>HTTPException\<close> carries a status code and a detail: a record of an error code,
  a message and (for the postcode) a field name, or a plain text.
\<close>

datatype detail =
    Detail string string "string option"
  | DetailText string

datatype http_exception = HTTPException nat detail

definition internal_server_error :: http_exception where
  "internal_server_error =
     HTTPException 500
       (Detail ''INTERNAL_SERVER_ERROR'' ''An unexpected error occurred. Please try again.'' None)"


text \<open>The handlers around step 1 and step 2, with the outer \<^verbatim>\<open>except Exception\<close>.\<close>

fun postcode_failure :: "exn \<Rightarrow> http_exception" where
  "postcode_failure (PostcodeNotFoundError m) =
     HTTPException 404 (Detail ''INVALID_POSTCODE'' m (Some ''postcode''))"
| "postcode_failure (PostcodeAPIError m) =
     HTTPException 503 (Detail ''POSTCODE_SERVICE_ERROR'' m None)"
| "postcode_failure _ = internal_server_error"

fun climate_failure :: "exn \<Rightarrow> http_exception" where
  "climate_failure (ClimateAPIError m) = HTTPException 503 (Detail ''CLIMATE_API_ERROR'' m None)"
| "climate_failure _ = internal_server_error"

definition not_implemented :: http_exception where
  "not_implemented =
     HTTPException 501 (Detail ''NOT_IMPLEMENTED'' ''Wind turbine calculations coming soon!'' None)"

text \<open>
  Step 3 on a solar request.  The specification fields that the schema lets be
  \<^verbatim>\<open>None\<close> make the calculator raise (\<^verbatim>\<open>None.lower()\<close>, a product with \<^verbatim>\<open>None\<close>),
  which the outer handler turns into the 500 answer, as it does with any other exception
  of the calculator.
\<close>

definition solar_step ::
  "SolarSpecs \<Rightarrow> SolarClimateData \<Rightarrow> Location \<Rightarrow> http_exception + SolarOutput"
where
  "solar_step specs climate_data location =
     (case (as_number (loc_latitude location), sp_panel_orientation specs,
            sp_inverter_efficiency specs, sp_shading_factor specs) of
        (Some lat, Some po, Some ie, Some sh) \<Rightarrow>
          (case calculate_solar_output (sp_capacity_kwp specs) climate_data lat po
                  (sp_panel_tilt_degrees specs) sh ie of
             Inl e \<Rightarrow> Inl internal_server_error
           | Inr solar_output \<Rightarrow> Inr solar_output)
      | _ \<Rightarrow> Inl internal_server_error)"

text \<open>
  \<^verbatim>\<open>calculate_energy\<close> up to the end of step 3: the result is the exception the endpoint
  raises, or the calculator's output that steps 4 and 5 (persistence and the response,
  not modelled) go on with.
\<close>

definition calculate_energy ::
  "http_result \<Rightarrow> http_result \<Rightarrow> CalculationRequest \<Rightarrow> state \<Rightarrow>
     (http_exception + SolarOutput) \<times> state"
where
  "calculate_energy postcode_response climate_response request s =
     (case lookup_postcode postcode_response (req_postcode request)
             (emit (Call_lookup_postcode (req_postcode request)) s) of
        (Inl e, s1) \<Rightarrow> (Inl (postcode_failure e), s1)
      | (Inr location, s1) \<Rightarrow>
          (case get_solar_climate_data climate_response (loc_latitude location) (loc_longitude location)
                  (emit (Call_get_solar_climate_data (loc_latitude location) (loc_longitude location)) s1) of
             (Inl e, s2) \<Rightarrow> (Inl (climate_failure e), s2)
           | (Inr climate_data, s2) \<Rightarrow>
               (case req_system_type request of
                  Solar \<Rightarrow>
                    (case req_system_specs request of
                       WindSpecsOf w \<Rightarrow>
                         (Inl (HTTPException 400 (DetailText ''Solar system requires SolarSpecs'')),
                          s2)
                     | SolarSpecsOf specs \<Rightarrow>
                         (solar_step specs climate_data location,
                          emit Call_calculate_solar_output s2))
                | Wind \<Rightarrow> (Inl not_implemented, s2))))"

section \<open>Properties of rounding\<close>




lemma rhe_lower: "y - 1 / 2 \<le> of_int (round_half_even y)"
  unfolding round_half_even_def Let_def
  by (auto simp: not_less) linarith+





lemma py_round_lower: "x - 1 / (2 * 10 ^ n) \<le> py_round x n"
proof -
  have "x * 10 ^ n - 1 / 2 \<le> of_int (round_half_even (x * 10 ^ n))" by (rule rhe_lower)
  then have "(x * 10 ^ n - 1 / 2) / 10 ^ n \<le> of_int (round_half_even (x * 10 ^ n)) / 10 ^ n"
    by (intro divide_right_mono) auto
  then show ?thesis by (simp add: py_round_def field_simps)
qed






lemma length_monthly_loop:
  "length (monthly_loop c e p ghi) = min (length ghi) 12"
  by (simp add: monthly_loop_def days_in_month_def)

lemma calculate_solar_output_Inr:
  assumes "capacity_kwp \<noteq> 0"
  shows "\<exists>out. calculate_solar_output capacity_kwp cd lat po tilt sh ie = Inr out \<and>
     monthly_kwh out =
       monthly_loop capacity_kwp
         (system_efficiency_of (orientation_factor_of po)
            (calculate_tilt_factor
               (case tilt of None \<Rightarrow> calculate_optimal_tilt lat | Some t \<Rightarrow> t)
               (calculate_optimal_tilt lat)) ie sh)
         0.85 (monthly_ghi_kwh_m2_day cd) \<and>
     annual_kwh out = py_round (sum_list (monthly_kwh out)) 2 \<and>
     capacity_factor out = py_round (sum_list (monthly_kwh out) / (capacity_kwp * 8760)) 4 \<and>
     kwh_per_kwp out = py_round (sum_list (monthly_kwh out) / capacity_kwp) 1"
  using assms by (simp add: calculate_solar_output_def Let_def)

section \<open>The calculator\<close>

lemma calculate_solar_output_zero_capacity:
  "calculate_solar_output 0 cd lat po tilt sh ie = Inl ZeroDivisionError"
  by (simp add: calculate_solar_output_def Let_def)

text \<open>
  C10: for a non-zero capacity (the division by it is the only step of the function that
  can raise, whatever the sequence), the calculator returns a result for a monthly
  irradiance sequence of any length, and \<open>monthly_kwh\<close> has exactly
  \<open>min (length of the sequence) 12\<close> entries: a shorter input gives a shorter output
  instead of an error, and 12 entries are produced exactly when the input has at least 12.
\<close>

theorem monthly_kwh_length:
  "capacity_kwp \<noteq> 0 \<Longrightarrow>
   (\<exists>out. calculate_solar_output capacity_kwp cd lat po tilt sh ie = Inr out \<and>
      length (monthly_kwh out) = min (length (monthly_ghi_kwh_m2_day cd)) 12 \<and>
      (length (monthly_kwh out) = 12 \<longleftrightarrow> 12 \<le> length (monthly_ghi_kwh_m2_day cd)))"
proof -
  assume c: "capacity_kwp \<noteq> 0"
  from calculate_solar_output_Inr [OF c, of cd lat po tilt sh ie]
  obtain out where o: "calculate_solar_output capacity_kwp cd lat po tilt sh ie = Inr out"
    and m: "monthly_kwh out =
       monthly_loop capacity_kwp
         (system_efficiency_of (orientation_factor_of po)
            (calculate_tilt_factor
               (case tilt of None \<Rightarrow> calculate_optimal_tilt lat | Some t \<Rightarrow> t)
               (calculate_optimal_tilt lat)) ie sh)
         0.85 (monthly_ghi_kwh_m2_day cd)" by blast
  have "length (monthly_kwh out) = min (length (monthly_ghi_kwh_m2_day cd)) 12"
    unfolding m by (rule length_monthly_loop)
  then show ?thesis using o by auto
qed

theorem monthly_kwh_length_witness:
  "(4::rat) \<noteq> 0 \<and>
   (\<exists>out. calculate_solar_output 4
        \<lparr>cd_latitude = 51.5, cd_longitude = 0, monthly_ghi_kwh_m2_day = [1, 2, 3],
         annual_ghi_kwh_m2 = 177.5, source = ''NASA_POWER''\<rparr>
        51.5 ''south'' None 1 0.96 = Inr out \<and>
      length (monthly_kwh out) = 3 \<and> length (monthly_kwh out) \<noteq> 12)"
  using monthly_kwh_length [of 4
        "\<lparr>cd_latitude = 51.5, cd_longitude = 0, monthly_ghi_kwh_m2_day = [1, 2, 3],
         annual_ghi_kwh_m2 = 177.5, source = ''NASA_POWER''\<rparr>"
        "51.5" "''south''" None 1 "0.96"]
  by (simp add: numeral_3_eq_3)

text \<open>
  C7: the orientation factor comes from a table of eight entries (south 1.00, south-east
  and south-west 0.97, east and west 0.88, north-east and north-west 0.75, north 0.55);
  an orientation whose lower-case form is not a key of the table gets 0.88; and the
  factors are ordered south > south-east = south-west > east = west >
  north-east = north-west > north.
\<close>

theorem orientation_factor_table:
  "length ORIENTATION_FACTORS = 8 \<and>
   orientation_factor_of ''south'' = 1.00 \<and>
   orientation_factor_of ''south-east'' = 0.97 \<and>
   orientation_factor_of ''south-west'' = 0.97 \<and>
   orientation_factor_of ''east'' = 0.88 \<and>
   orientation_factor_of ''west'' = 0.88 \<and>
   orientation_factor_of ''north-east'' = 0.75 \<and>
   orientation_factor_of ''north-west'' = 0.75 \<and>
   orientation_factor_of ''north'' = 0.55 \<and>
   (\<forall>s. lower s \<notin> fst ` set ORIENTATION_FACTORS \<longrightarrow> orientation_factor_of s = 0.88) \<and>
   orientation_factor_of ''south'' > orientation_factor_of ''south-east'' \<and>
   orientation_factor_of ''south-east'' = orientation_factor_of ''south-west'' \<and>
   orientation_factor_of ''south-west'' > orientation_factor_of ''east'' \<and>
   orientation_factor_of ''east'' = orientation_factor_of ''west'' \<and>
   orientation_factor_of ''west'' > orientation_factor_of ''north-east'' \<and>
   orientation_factor_of ''north-east'' = orientation_factor_of ''north-west'' \<and>
   orientation_factor_of ''north-west'' > orientation_factor_of ''north''"
proof -
  have d: "\<forall>s. lower s \<notin> fst ` set ORIENTATION_FACTORS \<longrightarrow> orientation_factor_of s = 0.88"
    by (simp add: orientation_factor_of_def map_of_eq_None_iff [symmetric])
  have v: "orientation_factor_of ''south'' = 1.00"
    "orientation_factor_of ''south-east'' = 0.97"
    "orientation_factor_of ''south-west'' = 0.97"
    "orientation_factor_of ''east'' = 0.88"
    "orientation_factor_of ''west'' = 0.88"
    "orientation_factor_of ''north-east'' = 0.75"
    "orientation_factor_of ''north-west'' = 0.75"
    "orientation_factor_of ''north'' = 0.55"
    by (simp_all add: orientation_factor_of_def ORIENTATION_FACTORS_def lower_def lower_char_def)
  have l: "length ORIENTATION_FACTORS = 8" by (simp add: ORIENTATION_FACTORS_def)
  show ?thesis unfolding v using d l by simp
qed

theorem orientation_factor_table_witness:
  "lower ''up'' \<notin> fst ` set ORIENTATION_FACTORS \<and> orientation_factor_of ''up'' = 0.88"
proof -
  have h: "lower ''up'' \<notin> fst ` set ORIENTATION_FACTORS"
    by (simp add: ORIENTATION_FACTORS_def lower_def lower_char_def)
  from orientation_factor_table
  have "\<forall>s. lower s \<notin> fst ` set ORIENTATION_FACTORS \<longrightarrow> orientation_factor_of s = 0.88"
    by blast
  with h show ?thesis by blast
qed





















section \<open>Postcode normalisation\<close>




















section \<open>The services and the endpoint\<close>

lemma lookup_postcode_fst_trace:
  "fst (lookup_postcode g pc (s\<lparr>trace := t\<rparr>)) = fst (lookup_postcode g pc s)"
  by (simp add: lookup_postcode_def Let_def emit_def
      split: option.splits http_result.splits http_body.splits sum.splits)

lemma lookup_postcode_trace:
  "trace (snd (lookup_postcode g pc s)) =
     trace s @
     (if postcode_cache s (lookup_postcode_normalized pc) = None
      then [Postcode_api_get (postcodes_io_base_url @ ''/postcodes/'' @ lookup_postcode_normalized pc)]
      else [])"
  by (simp add: lookup_postcode_def Let_def emit_def
      split: option.splits http_result.splits http_body.splits sum.splits)

lemma lookup_postcode_climate_cache:
  "climate_cache (snd (lookup_postcode g pc s)) = climate_cache s"
  by (simp add: lookup_postcode_def Let_def emit_def
      split: option.splits http_result.splits http_body.splits sum.splits)

lemma lookup_postcode_not_found_miss:
  "fst (lookup_postcode g pc s) = Inl (PostcodeNotFoundError m) \<Longrightarrow>
   postcode_cache s (lookup_postcode_normalized pc) = None"
  by (auto simp: lookup_postcode_def Let_def split: option.splits)

lemma get_solar_climate_data_trace:
  "\<exists>evs. trace (snd (get_solar_climate_data g la lo s)) = trace s @ evs \<and>
         (\<forall>e\<in>set evs. \<exists>u a b. e = Climate_api_get u a b)"
  by (simp add: get_solar_climate_data_def Let_def emit_def
      split: option.splits http_result.splits http_body.splits sum.splits)

lemma postcode_failure_codes:
  "postcode_failure e \<noteq> not_implemented"
  by (cases e) (simp_all add: not_implemented_def internal_server_error_def)

lemma climate_failure_codes:
  "climate_failure e \<noteq> not_implemented"
  by (cases e) (simp_all add: not_implemented_def internal_server_error_def)

lemma calculate_energy_not_found:
  assumes "fst (lookup_postcode postcode_response (req_postcode request) s) =
             Inl (PostcodeNotFoundError m)"
  shows "\<exists>s1. calculate_energy postcode_response climate_response request s =
           (Inl (HTTPException 404 (Detail ''INVALID_POSTCODE'' m (Some ''postcode''))), s1) \<and>
         lookup_postcode postcode_response (req_postcode request)
           (emit (Call_lookup_postcode (req_postcode request)) s) =
           (Inl (PostcodeNotFoundError m), s1)"
proof -
  let ?s0 = "emit (Call_lookup_postcode (req_postcode request)) s"
  obtain r s1 where l: "lookup_postcode postcode_response (req_postcode request) ?s0 = (r, s1)"
    by (cases "lookup_postcode postcode_response (req_postcode request) ?s0")
  have "fst (lookup_postcode postcode_response (req_postcode request) ?s0) =
        Inl (PostcodeNotFoundError m)"
    using assms by (simp add: emit_def lookup_postcode_fst_trace)
  then have r: "r = Inl (PostcodeNotFoundError m)" using l by simp
  have "calculate_energy postcode_response climate_response request s =
        (Inl (HTTPException 404 (Detail ''INVALID_POSTCODE'' m (Some ''postcode''))), s1)"
    by (simp add: calculate_energy_def l r)
  then show ?thesis using l r by simp
qed

lemma those_map_Some:
  "\<forall>x\<in>set xs. f x \<noteq> None \<Longrightarrow> those (map f xs) = Some (map (\<lambda>x. the (f x)) xs)"
  by (induction xs) auto

lemma monthly_values_numeric:
  assumes "\<forall>month\<in>set month_order. \<forall>v. map_of kvs month = Some v \<longrightarrow> as_number v \<noteq> None"
  shows "\<forall>v\<in>set (monthly_values kvs). as_number v \<noteq> None"
  using assms by (auto simp: monthly_values_def split: option.splits)

lemma annual_total_12:
  assumes "length ms = 12"
  shows "annual_total ms =
     (\<Sum>i<12. ms ! i * ([31, 28.25, 31, 30, 31, 30, 31, 31, 30, 31, 30, 31] ! i))"
proof -
  let ?ds = "[31, 28.25, 31, 30, 31, 30, 31, 31, 30, 31, 30, 31] :: rat list"
  have l: "length (zip ms ?ds) = 12" using assms by simp
  have "annual_total ms = sum_list (map (\<lambda>(m, d). m * d) (zip ms ?ds))"
    by (simp add: annual_total_def days_in_month_def)
  also have "\<dots> = (\<Sum>i = 0..<12. map (\<lambda>(m, d). m * d) (zip ms ?ds) ! i)"
    using l by (simp add: sum_list_sum_nth)
  also have "\<dots> = (\<Sum>i = 0..<12. ms ! i * (?ds ! i))"
    by (rule sum.cong) (use assms in auto)
  finally show ?thesis by (simp add: lessThan_atLeast0)
qed

lemma climate_of_monthly_data_ok:
  assumes ne: "kvs \<noteq> []"
    and num: "\<forall>month\<in>set month_order. \<forall>v. map_of kvs month = Some v \<longrightarrow> as_number v \<noteq> None"
  shows "climate_of_monthly_data lat lon (JObj kvs) =
     Inr \<lparr>cd_latitude = lat, cd_longitude = lon,
          monthly_ghi_kwh_m2_day = map (\<lambda>v. the (as_number v)) (monthly_values kvs),
          annual_ghi_kwh_m2 = annual_total (map (\<lambda>v. the (as_number v)) (monthly_values kvs)),
          source = ''NASA_POWER''\<rparr>"
  using ne those_map_Some [OF monthly_values_numeric [OF num]]
  by (simp add: climate_of_monthly_data_def)

text \<open>
  C6: on a cache miss, when the climate source answers with status 200 and a body whose
  irradiance parameter is a non-empty mapping with numeric values, the provider returns
  a record (a missing month is not an error): its 12 monthly values follow the month
  order JAN to DEC, a month absent from the mapping counts as 0.0, and the annual total
  is the sum over the 12 months of the monthly value times the days of the month, from
  the table with 28.25 days for February.
\<close>
theorem climate_partial_data:
  assumes key: "cache_key_of lat_v lon_v = Inr k" and miss: "climate_cache s k = None"
    and md: "extract_monthly_data data = Inr (JObj kvs)" and ne: "kvs \<noteq> []"
    and num: "\<forall>month\<in>set month_order. \<forall>v. map_of kvs month = Some v \<longrightarrow> as_number v \<noteq> None"
  shows "\<exists>cd. fst (get_solar_climate_data (Response 200 (Json data)) lat_v lon_v s) = Inr cd \<and>
     length (monthly_ghi_kwh_m2_day cd) = 12 \<and>
     (\<forall>i<12. monthly_ghi_kwh_m2_day cd ! i =
        (case map_of kvs (month_order ! i) of None \<Rightarrow> 0.0 | Some v \<Rightarrow> the (as_number v))) \<and>
     annual_ghi_kwh_m2 cd =
       (\<Sum>i<12. monthly_ghi_kwh_m2_day cd ! i *
                 ([31, 28.25, 31, 30, 31, 30, 31, 31, 30, 31, 30, 31] ! i))"
proof -
  let ?ms = "map (\<lambda>v. the (as_number v)) (monthly_values kvs)"
  let ?cd = "\<lparr>cd_latitude = the (as_number lat_v), cd_longitude = the (as_number lon_v),
          monthly_ghi_kwh_m2_day = ?ms, annual_ghi_kwh_m2 = annual_total ?ms,
          source = ''NASA_POWER''\<rparr>"
  have r: "fst (get_solar_climate_data (Response 200 (Json data)) lat_v lon_v s) = Inr ?cd"
    using key miss md climate_of_monthly_data_ok [OF ne num]
    by (simp add: get_solar_climate_data_def Let_def)
  have l: "length ?ms = 12" by (simp add: monthly_values_def month_order_def)
  have n: "\<forall>i<12. ?ms ! i =
        (case map_of kvs (month_order ! i) of None \<Rightarrow> 0.0 | Some v \<Rightarrow> the (as_number v))"
  proof (intro allI impI)
    fix i :: nat assume "i < 12"
    then have "i < length month_order" by (simp add: month_order_def)
    then show "?ms ! i =
        (case map_of kvs (month_order ! i) of None \<Rightarrow> 0.0 | Some v \<Rightarrow> the (as_number v))"
      by (simp add: monthly_values_def split: option.splits)
  qed
  have a: "annual_total ?ms =
       (\<Sum>i<12. ?ms ! i * ([31, 28.25, 31, 30, 31, 30, 31, 31, 30, 31, 30, 31] ! i))"
    using l by (rule annual_total_12)
  show ?thesis using r l n a by (intro exI [of _ ?cd]) simp
qed

theorem climate_partial_data_witness:
  "\<exists>cd. fst (get_solar_climate_data
          (Response 200 (Json (JObj [(''properties'', JObj [(''parameter'',
             JObj [(''ALLSKY_SFC_SW_DWN'', JObj [(''JAN'', JNum 0.7), (''JUL'', JNum 5.2)])])])])))
          (JNum 51.5) (JNum (- 0.14))
          \<lparr>postcode_cache = Map.empty, climate_cache = Map.empty, trace = []\<rparr>) = Inr cd \<and>
     monthly_ghi_kwh_m2_day cd ! 0 = 0.7 \<and>
     monthly_ghi_kwh_m2_day cd ! 1 = 0 \<and>
     monthly_ghi_kwh_m2_day cd ! 6 = 5.2"
proof -
  let ?kvs = "[(''JAN'', JNum 0.7), (''JUL'', JNum 5.2)]"
  let ?data = "JObj [(''properties'', JObj [(''parameter'',
             JObj [(''ALLSKY_SFC_SW_DWN'', JObj ?kvs)])])]"
  let ?s = "\<lparr>postcode_cache = Map.empty, climate_cache = Map.empty, trace = []\<rparr>"
  have key: "cache_key_of (JNum 51.5) (JNum (- 0.14)) =
               Inr (format_2f 51.5 @ '','' @ format_2f (- 0.14))"
    by (simp add: cache_key_of_def)
  have miss: "climate_cache ?s (format_2f 51.5 @ '','' @ format_2f (- 0.14)) = None" by simp
  have md: "extract_monthly_data ?data = Inr (JObj ?kvs)"
    by (simp add: extract_monthly_data_def)
  have ne: "?kvs \<noteq> []" by simp
  have num: "\<forall>month\<in>set month_order. \<forall>v. map_of ?kvs month = Some v \<longrightarrow> as_number v \<noteq> None"
    by (simp add: month_order_def del: not_None_eq)
  from climate_partial_data [OF key miss md ne num]
  obtain cd where r: "fst (get_solar_climate_data (Response 200 (Json ?data))
        (JNum 51.5) (JNum (- 0.14)) ?s) = Inr cd"
    and n: "\<forall>i<12. monthly_ghi_kwh_m2_day cd ! i =
        (case map_of ?kvs (month_order ! i) of None \<Rightarrow> 0.0 | Some v \<Rightarrow> the (as_number v))"
    by blast
  have "monthly_ghi_kwh_m2_day cd ! 0 = 0.7"
    using n [rule_format, of 0] by (simp add: month_order_def)
  moreover have "monthly_ghi_kwh_m2_day cd ! 1 = 0"
    using n [rule_format, of 1] by (simp add: month_order_def)
  moreover have "monthly_ghi_kwh_m2_day cd ! 6 = 5.2"
    using n [rule_format, of 6] by (simp add: month_order_def)
  ultimately show ?thesis using r by blast
qed








text \<open>
  C8: when the postcode lookup of a request fails with \<open>PostcodeNotFoundError\<close>, the
  endpoint fails with 404 \<open>INVALID_POSTCODE\<close> carrying the lookup's message; the calls
  and requests it has made are the lookup and its one request to the postcode service,
  so neither the climate provider nor the calculator was invoked, and the climate cache
  is unchanged.
\<close>
theorem not_found_stops_pipeline:
  assumes "fst (lookup_postcode postcode_response (req_postcode request) s) =
             Inl (PostcodeNotFoundError m)"
  shows "fst (calculate_energy postcode_response climate_response request s) =
           Inl (HTTPException 404 (Detail ''INVALID_POSTCODE'' m (Some ''postcode''))) \<and>
         trace (snd (calculate_energy postcode_response climate_response request s)) =
           trace s @
           [Call_lookup_postcode (req_postcode request),
            Postcode_api_get (postcodes_io_base_url @ ''/postcodes/'' @
                              lookup_postcode_normalized (req_postcode request))] \<and>
         climate_cache (snd (calculate_energy postcode_response climate_response request s)) =
           climate_cache s"
proof -
  let ?s0 = "emit (Call_lookup_postcode (req_postcode request)) s"
  from calculate_energy_not_found [OF assms, of climate_response]
  obtain s1 where ce: "calculate_energy postcode_response climate_response request s =
           (Inl (HTTPException 404 (Detail ''INVALID_POSTCODE'' m (Some ''postcode''))), s1)"
    and l: "lookup_postcode postcode_response (req_postcode request) ?s0 =
           (Inl (PostcodeNotFoundError m), s1)"
    by blast
  have miss: "postcode_cache ?s0 (lookup_postcode_normalized (req_postcode request)) = None"
    using lookup_postcode_not_found_miss [OF assms] by (simp add: emit_def)
  have t: "trace s1 = trace s @
           [Call_lookup_postcode (req_postcode request),
            Postcode_api_get (postcodes_io_base_url @ ''/postcodes/'' @
                              lookup_postcode_normalized (req_postcode request))]"
    using lookup_postcode_trace [of postcode_response "req_postcode request" ?s0] l miss
    by (simp add: emit_def)
  have c: "climate_cache s1 = climate_cache s"
    using lookup_postcode_climate_cache [of postcode_response "req_postcode request" ?s0] l
    by (simp add: emit_def)
  show ?thesis using ce t c by simp
qed

theorem not_found_stops_pipeline_witness:
  "fst (lookup_postcode (Response 404 (NotJson [])) ''ZZ99 9ZZ''
          \<lparr>postcode_cache = Map.empty, climate_cache = Map.empty, trace = []\<rparr>) =
     Inl (PostcodeNotFoundError (''Postcode '' @ [CHR 0x27] @ ''ZZ99 9ZZ'' @ [CHR 0x27] @ '' not found'')) \<and>
   fst (calculate_energy (Response 404 (NotJson [])) TimeoutException
          \<lparr>req_postcode = ''ZZ99 9ZZ'', req_system_type = Solar,
           req_system_specs = SolarSpecsOf \<lparr>sp_capacity_kwp = 4, sp_panel_orientation = Some ''south'',
             sp_panel_tilt_degrees = None, sp_shading_factor = Some 1,
             sp_inverter_efficiency = Some 0.96\<rparr>\<rparr>
          \<lparr>postcode_cache = Map.empty, climate_cache = Map.empty, trace = []\<rparr>) =
     Inl (HTTPException 404 (Detail ''INVALID_POSTCODE''
            (''Postcode '' @ [CHR 0x27] @ ''ZZ99 9ZZ'' @ [CHR 0x27] @ '' not found'') (Some ''postcode''))) \<and>
   trace (snd (calculate_energy (Response 404 (NotJson [])) TimeoutException
          \<lparr>req_postcode = ''ZZ99 9ZZ'', req_system_type = Solar,
           req_system_specs = SolarSpecsOf \<lparr>sp_capacity_kwp = 4, sp_panel_orientation = Some ''south'',
             sp_panel_tilt_degrees = None, sp_shading_factor = Some 1,
             sp_inverter_efficiency = Some 0.96\<rparr>\<rparr>
          \<lparr>postcode_cache = Map.empty, climate_cache = Map.empty, trace = []\<rparr>)) =
     [Call_lookup_postcode ''ZZ99 9ZZ'',
      Postcode_api_get ''https://api.postcodes.io/postcodes/ZZ999ZZ'']"
proof -
  let ?s = "\<lparr>postcode_cache = Map.empty, climate_cache = Map.empty, trace = []\<rparr>"
  let ?r = "\<lparr>req_postcode = ''ZZ99 9ZZ'', req_system_type = Solar,
           req_system_specs = SolarSpecsOf \<lparr>sp_capacity_kwp = 4, sp_panel_orientation = Some ''south'',
             sp_panel_tilt_degrees = None, sp_shading_factor = Some 1,
             sp_inverter_efficiency = Some 0.96\<rparr>\<rparr>"
  have h: "fst (lookup_postcode (Response 404 (NotJson [])) (req_postcode ?r) ?s) =
     Inl (PostcodeNotFoundError (''Postcode '' @ [CHR 0x27] @ ''ZZ99 9ZZ'' @ [CHR 0x27] @ '' not found''))"
    by (simp add: lookup_postcode_def Let_def postcode_not_found_def)
  have n: "lookup_postcode_normalized ''ZZ99 9ZZ'' = ''ZZ999ZZ''" by code_simp
  show ?thesis
    using h not_found_stops_pipeline [OF h, of TimeoutException]
    by (simp add: n postcodes_io_base_url_def)
qed

text \<open>
  C9: for a wind request, a postcode that is not found gives 404 \<open>INVALID_POSTCODE\<close>;
  the answer is 501 \<open>NOT_IMPLEMENTED\<close> exactly when the postcode lookup and then the
  climate lookup both succeeded, and then both calls are in the trace, in this order;
  the endpoint never returns a result; and the calculator is never invoked.
\<close>
theorem wind_request_outcomes:
  assumes w: "req_system_type request = Wind"
  shows "(fst (lookup_postcode postcode_response (req_postcode request) s) =
            Inl (PostcodeNotFoundError m) \<longrightarrow>
          fst (calculate_energy postcode_response climate_response request s) =
            Inl (HTTPException 404 (Detail ''INVALID_POSTCODE'' m (Some ''postcode'')))) \<and>
         (fst (calculate_energy postcode_response climate_response request s) = Inl not_implemented
          \<longleftrightarrow>
          (\<exists>location s1 climate_data s2.
             lookup_postcode postcode_response (req_postcode request)
               (emit (Call_lookup_postcode (req_postcode request)) s) = (Inr location, s1) \<and>
             get_solar_climate_data climate_response (loc_latitude location) (loc_longitude location)
               (emit (Call_get_solar_climate_data (loc_latitude location) (loc_longitude location)) s1)
               = (Inr climate_data, s2))) \<and>
         (fst (calculate_energy postcode_response climate_response request s) = Inl not_implemented
          \<longrightarrow>
          (\<exists>la lo evs1 evs2.
             trace (snd (calculate_energy postcode_response climate_response request s)) =
               trace s @ [Call_lookup_postcode (req_postcode request)] @ evs1 @
               [Call_get_solar_climate_data la lo] @ evs2)) \<and>
         (\<forall>out. fst (calculate_energy postcode_response climate_response request s) \<noteq> Inr out) \<and>
         Call_calculate_solar_output \<notin>
           set (drop (length (trace s))
                  (trace (snd (calculate_energy postcode_response climate_response request s))))"
proof -
  let ?pc = "req_postcode request"
  let ?s0 = "emit (Call_lookup_postcode ?pc) s"
  let ?CE = "calculate_energy postcode_response climate_response request s"
  have nf: "fst (lookup_postcode postcode_response ?pc s) = Inl (PostcodeNotFoundError m) \<longrightarrow>
          fst ?CE = Inl (HTTPException 404 (Detail ''INVALID_POSTCODE'' m (Some ''postcode'')))"
    using calculate_energy_not_found [of postcode_response request s m climate_response] by auto
  obtain r s1 where l: "lookup_postcode postcode_response ?pc ?s0 = (r, s1)"
    by (cases "lookup_postcode postcode_response ?pc ?s0")
  define evs1 where "evs1 =
     (if postcode_cache ?s0 (lookup_postcode_normalized ?pc) = None
      then [Postcode_api_get (postcodes_io_base_url @ ''/postcodes/'' @ lookup_postcode_normalized ?pc)]
      else [])"
  have t1: "trace s1 = trace s @ [Call_lookup_postcode ?pc] @ evs1"
    using lookup_postcode_trace [of postcode_response ?pc ?s0] l
    by (simp add: emit_def evs1_def)
  have e1: "Call_calculate_solar_output \<notin> set evs1" by (simp add: evs1_def)
  show ?thesis
  proof (cases r)
    case (Inl e)
    then have ce: "?CE = (Inl (postcode_failure e), s1)"
      by (simp add: calculate_energy_def l)
    show ?thesis using nf ce l Inl t1 e1 postcode_failure_codes [of e] by auto
  next
    case (Inr location)
    let ?s1' = "emit (Call_get_solar_climate_data (loc_latitude location) (loc_longitude location)) s1"
    obtain r2 s2 where c: "get_solar_climate_data climate_response (loc_latitude location)
        (loc_longitude location) ?s1' = (r2, s2)"
      by (cases "get_solar_climate_data climate_response (loc_latitude location)
        (loc_longitude location) ?s1'")
    from get_solar_climate_data_trace
      [of climate_response "loc_latitude location" "loc_longitude location" ?s1']
    obtain evs2 where t2: "trace s2 = trace ?s1' @ evs2"
      and e2: "\<forall>e\<in>set evs2. \<exists>u a b. e = Climate_api_get u a b"
      using c by auto
    have t2': "trace s2 = trace s @ [Call_lookup_postcode ?pc] @ evs1 @
        [Call_get_solar_climate_data (loc_latitude location) (loc_longitude location)] @ evs2"
      using t2 t1 by (simp add: emit_def)
    have e2': "Call_calculate_solar_output \<notin> set evs2" using e2 by auto
    show ?thesis
    proof (cases r2)
      case (Inl e)
      then have ce: "?CE = (Inl (climate_failure e), s2)"
        using Inr by (simp add: calculate_energy_def l c)
      show ?thesis using nf ce l c Inl Inr t2' e1 e2' climate_failure_codes [of e] by auto
    next
      case (Inr climate_data)
      then have ce: "?CE = (Inl not_implemented, s2)"
        using \<open>r = Inr location\<close> w by (simp add: calculate_energy_def l c)
      have tr: "\<exists>la lo evs1 evs2. trace (snd ?CE) =
               trace s @ [Call_lookup_postcode ?pc] @ evs1 @
               [Call_get_solar_climate_data la lo] @ evs2"
        unfolding ce using t2' by auto
      show ?thesis using nf ce l c Inr \<open>r = Inr location\<close> t2' e1 e2' tr
        by auto
    qed
  qed
qed

theorem wind_request_outcomes_witness:
  "req_system_type
     \<lparr>req_postcode = ''SW1A 1AA'', req_system_type = Wind,
      req_system_specs = WindSpecsOf \<lparr>rated_power_kw = 5, hub_height_m = 10, turbine_model = None\<rparr>\<rparr>
     = Wind \<and>
   fst (calculate_energy (Response 404 (NotJson [])) TimeoutException
     \<lparr>req_postcode = ''SW1A 1AA'', req_system_type = Wind,
      req_system_specs = WindSpecsOf \<lparr>rated_power_kw = 5, hub_height_m = 10, turbine_model = None\<rparr>\<rparr>
     \<lparr>postcode_cache = Map.empty, climate_cache = Map.empty, trace = []\<rparr>) =
     Inl (HTTPException 404 (Detail ''INVALID_POSTCODE''
            (''Postcode '' @ [CHR 0x27] @ ''SW1A 1AA'' @ [CHR 0x27] @ '' not found'') (Some ''postcode''))) \<and>
   fst (calculate_energy
     (Response 200 (Json (JObj [(''status'', JNum 200),
        (''result'', JObj [(''postcode'', JStr ''SW1A 1AA''), (''latitude'', JNum 51.5),
                           (''longitude'', JNum (- 0.14)), (''region'', JStr ''London'')])])))
     (Response 200 (Json (JObj [(''properties'',
        JObj [(''parameter'', JObj [(''ALLSKY_SFC_SW_DWN'', JObj [(''JAN'', JNum 0.7)])])])])))
     \<lparr>req_postcode = ''SW1A 1AA'', req_system_type = Wind,
      req_system_specs = WindSpecsOf \<lparr>rated_power_kw = 5, hub_height_m = 10, turbine_model = None\<rparr>\<rparr>
     \<lparr>postcode_cache = Map.empty, climate_cache = Map.empty, trace = []\<rparr>) = Inl not_implemented \<and>
   (\<exists>la lo evs1 evs2. trace (snd (calculate_energy
     (Response 200 (Json (JObj [(''status'', JNum 200),
        (''result'', JObj [(''postcode'', JStr ''SW1A 1AA''), (''latitude'', JNum 51.5),
                           (''longitude'', JNum (- 0.14)), (''region'', JStr ''London'')])])))
     (Response 200 (Json (JObj [(''properties'',
        JObj [(''parameter'', JObj [(''ALLSKY_SFC_SW_DWN'', JObj [(''JAN'', JNum 0.7)])])])])))
     \<lparr>req_postcode = ''SW1A 1AA'', req_system_type = Wind,
      req_system_specs = WindSpecsOf \<lparr>rated_power_kw = 5, hub_height_m = 10, turbine_model = None\<rparr>\<rparr>
     \<lparr>postcode_cache = Map.empty, climate_cache = Map.empty, trace = []\<rparr>)) =
     [Call_lookup_postcode ''SW1A 1AA''] @ evs1 @ [Call_get_solar_climate_data la lo] @ evs2)"
proof -
  let ?s = "\<lparr>postcode_cache = Map.empty, climate_cache = Map.empty, trace = []\<rparr>"
  let ?r = "\<lparr>req_postcode = ''SW1A 1AA'', req_system_type = Wind,
      req_system_specs = WindSpecsOf \<lparr>rated_power_kw = 5, hub_height_m = 10, turbine_model = None\<rparr>\<rparr>"
  let ?pg = "Response 200 (Json (JObj [(''status'', JNum 200),
        (''result'', JObj [(''postcode'', JStr ''SW1A 1AA''), (''latitude'', JNum 51.5),
                           (''longitude'', JNum (- 0.14)), (''region'', JStr ''London'')])]))"
  let ?cg = "Response 200 (Json (JObj [(''properties'',
        JObj [(''parameter'', JObj [(''ALLSKY_SFC_SW_DWN'', JObj [(''JAN'', JNum 0.7)])])])]))"
  have w: "req_system_type ?r = Wind" by simp
  have h: "fst (lookup_postcode (Response 404 (NotJson [])) (req_postcode ?r) ?s) =
     Inl (PostcodeNotFoundError (''Postcode '' @ [CHR 0x27] @ ''SW1A 1AA'' @ [CHR 0x27] @ '' not found''))"
    by (simp add: lookup_postcode_def Let_def postcode_not_found_def)
  have a: "fst (calculate_energy (Response 404 (NotJson [])) TimeoutException ?r ?s) =
     Inl (HTTPException 404 (Detail ''INVALID_POSTCODE''
            (''Postcode '' @ [CHR 0x27] @ ''SW1A 1AA'' @ [CHR 0x27] @ '' not found'') (Some ''postcode'')))"
    using wind_request_outcomes [OF w, of "Response 404 (NotJson [])" ?s _ TimeoutException] h
    by blast
  have e: "fst (calculate_energy ?pg ?cg ?r ?s) = Inl not_implemented"
    by (simp add: calculate_energy_def lookup_postcode_def get_solar_climate_data_def Let_def
        emit_def location_of_result_def cache_key_of_def extract_monthly_data_def
        climate_of_monthly_data_def monthly_values_def month_order_def)
  have b: "\<exists>la lo evs1 evs2. trace (snd (calculate_energy ?pg ?cg ?r ?s)) =
     [Call_lookup_postcode ''SW1A 1AA''] @ evs1 @ [Call_get_solar_climate_data la lo] @ evs2"
    using wind_request_outcomes [OF w, of ?pg ?s _ ?cg] e by simp
  show ?thesis using w a e b by blast
qed

end
